theory Spec2Isabelle
  imports Main "HOL-Library.Word"
begin

section \<open>The shard reader of scripts/kinesis\_consumer.py\<close>

text \<open>
  The script parses three command-line flags, asks the Kinesis client for a shard
  iterator, fetches one batch of records with it and prints a three-column table.
  The embedding follows the script statement by statement. What the script takes from
  outside (the boto3 client and its two methods) is a parameter of the model; what the
  script does to the outside (the calls it makes, the lines it prints) is recorded in
  an explicit state; every exception that can leave the script is a value.
\<close>

subsection \<open>Python values\<close>

text \<open>
  A Python \<open>str\<close> is a sequence of Unicode code points and \<open>len\<close> and the format
  widths count code points, so a \<open>str\<close> is a list of code points. \<open>bytes\<close> is a
  list of 8-bit words. \<open>str\<close> turns an ASCII literal of the script into a \<open>str\<close>.
\<close>

type_synonym pystr = "nat list"
type_synonym byte = "8 word"

definition str :: "string \<Rightarrow> pystr" where
  "str s = map of_char s"

text \<open>
  The exceptions that can end a run. \<open>ClientError\<close> stands for whatever boto3 or the
  client raises inside one of its calls (the script catches nothing, so the exception
  leaves the program as it is); the others are raised by the script's own statements.
\<close>

datatype exn =
    ClientError pystr
  | KeyError pystr
  | TypeError
  | UnicodeDecodeError
  | SystemExit int

subsection \<open>bytes.decode('utf-8')\<close>

text \<open>
  The strict UTF-8 decoder: the well-formed byte sequences are exactly those of one to
  four bytes with a lead byte \<open>00..7F\<close>, \<open>C2..DF\<close>, \<open>E0..EF\<close> or \<open>F0..F4\<close>, followed by
  continuation bytes \<open>80..BF\<close>, where the second byte is narrowed after \<open>E0\<close> (no
  overlong form), \<open>ED\<close> (no surrogate), \<open>F0\<close> (no overlong form) and \<open>F4\<close> (nothing
  above U+10FFFF). \<open>utf_8\<close> is the codec, with \<open>None\<close> for a sequence that is not
  well formed; \<open>decode\<close> is the method, which raises \<open>UnicodeDecodeError\<close> then.
\<close>

definition cont :: "byte \<Rightarrow> bool" where
  "cont b \<longleftrightarrow> 0x80 \<le> b \<and> b \<le> 0xBF"

definition second3 :: "byte \<Rightarrow> byte \<Rightarrow> bool" where
  "second3 b0 b1 \<longleftrightarrow>
     (if b0 = 0xE0 then 0xA0 \<le> b1 \<and> b1 \<le> 0xBF
      else if b0 = 0xED then 0x80 \<le> b1 \<and> b1 \<le> 0x9F
      else cont b1)"

definition second4 :: "byte \<Rightarrow> byte \<Rightarrow> bool" where
  "second4 b0 b1 \<longleftrightarrow>
     (if b0 = 0xF0 then 0x90 \<le> b1 \<and> b1 \<le> 0xBF
      else if b0 = 0xF4 then 0x80 \<le> b1 \<and> b1 \<le> 0x8F
      else cont b1)"

definition low6 :: "byte \<Rightarrow> nat" where
  "low6 b = unat b mod 64"

fun utf_8 :: "byte list \<Rightarrow> pystr option" where
  "utf_8 [] = Some []"
| "utf_8 (b0 # bs) =
     (if b0 < 0x80 then map_option ((#) (unat b0)) (utf_8 bs)
      else if 0xC2 \<le> b0 \<and> b0 \<le> 0xDF then
        (case bs of
           b1 # r \<Rightarrow>
             if cont b1
             then map_option ((#) (unat b0 mod 32 * 64 + low6 b1)) (utf_8 r)
             else None
         | _ \<Rightarrow> None)
      else if 0xE0 \<le> b0 \<and> b0 \<le> 0xEF then
        (case bs of
           b1 # b2 # r \<Rightarrow>
             if second3 b0 b1 \<and> cont b2
             then map_option ((#) (unat b0 mod 16 * 4096 + low6 b1 * 64 + low6 b2)) (utf_8 r)
             else None
         | _ \<Rightarrow> None)
      else if 0xF0 \<le> b0 \<and> b0 \<le> 0xF4 then
        (case bs of
           b1 # b2 # b3 # r \<Rightarrow>
             if second4 b0 b1 \<and> cont b2 \<and> cont b3
             then map_option
                    ((#) (unat b0 mod 8 * 262144 + low6 b1 * 4096 + low6 b2 * 64 + low6 b3))
                    (utf_8 r)
             else None
         | _ \<Rightarrow> None)
      else None)"

definition valid_utf_8 :: "byte list \<Rightarrow> bool" where
  "valid_utf_8 bs \<longleftrightarrow> utf_8 bs \<noteq> None"

definition decode :: "byte list \<Rightarrow> exn + pystr" where
  "decode bs = (case utf_8 bs of None \<Rightarrow> Inl UnicodeDecodeError | Some s \<Rightarrow> Inr s)"

subsection \<open>str.format with the script's format string\<close>

text \<open>
  \<open>fmt = "{:^20} {:^60} {:<40}"\<close>. A replacement field \<open>{:^w}\<close> centres a \<open>str\<close> in
  \<open>w\<close> columns and \<open>{:<w}\<close> left-aligns it, filling with spaces; the width is a
  minimum, a longer value is copied unchanged. When the padding is odd, centring puts
  the smaller half on the left. \<open>None\<close> (the value of a flag that was not given)
  rejects a non-empty format specification with \<open>TypeError\<close>.
\<close>

definition space :: nat where
  "space = 32"

definition dash :: nat where
  "dash = 45"

definition format_center :: "nat \<Rightarrow> pystr \<Rightarrow> pystr" where
  "format_center width s =
     (if width \<le> length s then s
      else let total = width - length s; left = total div 2
           in replicate left space @ s @ replicate (total - left) space)"

definition format_left :: "nat \<Rightarrow> pystr \<Rightarrow> pystr" where
  "format_left width s =
     (if width \<le> length s then s
      else s @ replicate (width - length s) space)"

definition fmt_format :: "pystr option \<Rightarrow> pystr \<Rightarrow> pystr \<Rightarrow> exn + pystr" where
  "fmt_format a b c =
     (case a of
        None \<Rightarrow> Inl TypeError
      | Some s \<Rightarrow>
          Inr (format_center 20 s @ [space] @ format_center 60 b @ [space] @ format_left 40 c))"

subsection \<open>The outside world\<close>

text \<open>
  The Kinesis client is boto3's, not the script's: it is a parameter. Each of its
  methods either raises (\<open>Inl\<close>, with the exception's message) or returns a response
  (\<open>Inr\<close>). The response of \<open>get_shard_iterator\<close>
  is a dictionary in which the key \<open>ShardIterator\<close> is optional in the service's
  output shape; the response of \<open>get_records\<close> carries the list \<open>Records\<close> and a
  \<open>NextShardIterator\<close>; a record carries its \<open>SequenceNumber\<close> and its \<open>Data\<close>.
\<close>

record itr_response =
  ShardIterator :: "pystr option"

record kinesis_record =
  SequenceNumber :: pystr
  Data :: "byte list"

record records_response =
  Records :: "kinesis_record list"
  NextShardIterator :: "pystr option"

record kinesis_client =
  get_shard_iterator :: "pystr option \<Rightarrow> pystr option \<Rightarrow> pystr \<Rightarrow> pystr + itr_response"
  get_records :: "pystr \<Rightarrow> int \<Rightarrow> pystr + records_response"

type_synonym boto3 = "pystr \<Rightarrow> pystr option \<Rightarrow> pystr + kinesis_client"

text \<open>
  The effects of a run: the calls made to boto3 and to the client, in order and with
  their arguments, and the strings handed to \<open>print\<close>, one entry for each call of
  \<open>print\<close>. Writing to the standard output is taken to succeed.
\<close>

datatype call =
    Boto3Client pystr "pystr option"
  | GetShardIterator "pystr option" "pystr option" pystr
  | GetRecords pystr int

record world =
  calls :: "call list"
  stdout :: "pystr list"

definition init :: world where
  "init = \<lparr>calls = [], stdout = []\<rparr>"

definition invoke :: "call \<Rightarrow> world \<Rightarrow> world" where
  "invoke c w = w\<lparr>calls := calls w @ [c]\<rparr>"

definition print :: "pystr \<Rightarrow> world \<Rightarrow> world" where
  "print s w = w\<lparr>stdout := stdout w @ [s]\<rparr>"

subsection \<open>main\<close>

record args =
  stream_name :: "pystr option"
  shard_id :: "pystr option"
  region :: "pystr option"

text \<open>
  \<open>record_row\<close> is the argument of \<open>print\<close> in the loop body: the arguments of
  \<open>fmt.format\<close> are evaluated first (so the payload is decoded before anything is
  formatted), then the row is formatted. The loop prints each row as soon as it is
  built and stops at the first exception.
\<close>

definition record_row :: "pystr option \<Rightarrow> kinesis_record \<Rightarrow> exn + pystr" where
  "record_row sid r =
     (case decode (Data r) of
        Inl e \<Rightarrow> Inl e
      | Inr message \<Rightarrow> fmt_format sid (SequenceNumber r) message)"

fun for_record :: "pystr option \<Rightarrow> kinesis_record list \<Rightarrow> world \<Rightarrow> world \<times> (exn + unit)" where
  "for_record sid [] w = (w, Inr ())"
| "for_record sid (r # rs) w =
     (case record_row sid r of
        Inl e \<Rightarrow> (w, Inl e)
      | Inr row \<Rightarrow> for_record sid rs (print row w))"

definition main :: "boto3 \<Rightarrow> args \<Rightarrow> world \<Rightarrow> world \<times> (exn + unit)" where
  "main boto3 args w0 =
     (let aws_region = region args;
          w1 = invoke (Boto3Client (str ''kinesis'') aws_region) w0
      in case boto3 (str ''kinesis'') aws_region of
        Inl m \<Rightarrow> (w1, Inl (ClientError m))
      | Inr kinesis \<Rightarrow>
         (let w2 = invoke (GetShardIterator (stream_name args) (shard_id args)
                             (str ''TRIM_HORIZON'')) w1
          in case get_shard_iterator kinesis (stream_name args) (shard_id args)
                    (str ''TRIM_HORIZON'') of
            Inl m \<Rightarrow> (w2, Inl (ClientError m))
          | Inr itr_response \<Rightarrow>
             (case ShardIterator itr_response of
                None \<Rightarrow> (w2, Inl (KeyError (str ''ShardIterator'')))
              | Some shard_itr \<Rightarrow>
                 (let w3 = invoke (GetRecords shard_itr 200) w2
                  in case get_records kinesis shard_itr 200 of
                    Inl m \<Rightarrow> (w3, Inl (ClientError m))
                  | Inr records_response \<Rightarrow>
                     (case fmt_format (Some (str ''Shard'')) (str ''Position'')
                             (str ''Message'') of
                        Inl e \<Rightarrow> (w3, Inl e)
                      | Inr header \<Rightarrow>
                         (let w4 = print header w3
                          in case fmt_format (Some (replicate 20 dash)) (replicate 60 dash)
                                    (replicate 40 dash) of
                            Inl e \<Rightarrow> (w4, Inl e)
                          | Inr rule \<Rightarrow>
                              for_record (shard_id args) (Records records_response)
                                (print rule w4)))))))"

subsection \<open>The entry point\<close>








subsection \<open>The head of the table\<close>

text \<open>
  The two lines that \<open>main\<close> prints before the loop, written out: \<open>Shard\<close> centred in
  20 columns (7 spaces before, 8 after), \<open>Position\<close> centred in 60 (26 and 26),
  \<open>Message\<close> left-aligned in 40 (33 after); then 20, 60 and 40 dashes. The columns are
  joined by the single spaces of the format string.
\<close>

definition table_head :: "pystr list" where
  "table_head =
     [replicate 7 space @ str ''Shard'' @ replicate 8 space @ [space] @
        replicate 26 space @ str ''Position'' @ replicate 26 space @ [space] @
        str ''Message'' @ replicate 33 space,
      replicate 20 dash @ [space] @ replicate 60 dash @ [space] @ replicate 40 dash]"

subsection \<open>A concrete service\<close>

text \<open>
  A stream \<open>orders\<close> in \<open>us-east-1\<close> with four shards, used to run the model on
  concrete inputs. Shard 1 holds one record with payload \<open>hello\<close>; shard 2 is empty;
  the second record of shard 3 has the payload \<open>68 FF\<close>, which is not UTF-8; the record
  of shard 4 has a payload of 41 letters \<open>a\<close>. Any other shard is unknown, and the
  iterator \<open>gone\<close> of shard 5 has expired by the time it is used.
\<close>

definition hello :: "byte list" where
  "hello = [0x68, 0x65, 0x6C, 0x6C, 0x6F]"

definition orders_iterator :: "pystr \<Rightarrow> pystr option" where
  "orders_iterator shard =
     (if shard = str ''shardId-0001'' then Some (str ''abc123'')
      else if shard = str ''shardId-0002'' then Some (str ''empty'')
      else if shard = str ''shardId-0003'' then Some (str ''mixed'')
      else if shard = str ''shardId-0004'' then Some (str ''wide'')
      else if shard = str ''shardId-0005'' then Some (str ''gone'')
      else None)"

definition orders_records :: "pystr \<Rightarrow> kinesis_record list option" where
  "orders_records itr =
     (if itr = str ''abc123'' then Some [\<lparr>SequenceNumber = str ''4956'', Data = hello\<rparr>]
      else if itr = str ''empty'' then Some []
      else if itr = str ''mixed'' then
        Some [\<lparr>SequenceNumber = str ''4956'', Data = hello\<rparr>,
              \<lparr>SequenceNumber = str ''4957'', Data = [0x68, 0xFF]\<rparr>,
              \<lparr>SequenceNumber = str ''4958'', Data = hello\<rparr>]
      else if itr = str ''wide'' then
        Some [\<lparr>SequenceNumber = str ''4956'', Data = replicate 41 0x61\<rparr>]
      else None)"

definition orders_client :: kinesis_client where
  "orders_client =
     \<lparr>get_shard_iterator = (\<lambda>stream shard typ.
        if stream = Some (str ''orders'') \<and> typ = str ''TRIM_HORIZON''
        then (case shard of
                None \<Rightarrow> Inl (str ''ParamValidationError'')
              | Some sh \<Rightarrow>
                 (case orders_iterator sh of
                    None \<Rightarrow> Inl (str ''ResourceNotFoundException'')
                  | Some itr \<Rightarrow> Inr \<lparr>ShardIterator = Some itr\<rparr>))
        else Inl (str ''ResourceNotFoundException'')),
      get_records = (\<lambda>itr limit.
        case orders_records itr of
          None \<Rightarrow> Inl (str ''ExpiredIteratorException'')
        | Some rs \<Rightarrow> Inr \<lparr>Records = rs, NextShardIterator = Some (itr @ str ''+'')\<rparr>)\<rparr>"

definition orders_boto3 :: boto3 where
  "orders_boto3 service aws_region =
     (if service = str ''kinesis'' \<and> aws_region = Some (str ''us-east-1'')
      then Inr orders_client
      else Inl (str ''NoRegionError''))"

definition orders_args :: "string \<Rightarrow> args" where
  "orders_args shard =
     \<lparr>stream_name = Some (str ''orders''), shard_id = Some (str shard),
      region = Some (str ''us-east-1'')\<rparr>"




section \<open>Properties\<close>

subsection \<open>The loop and the straight-line part\<close>

text \<open>
  The loop makes no call. It prints the rows of the records before the first one whose
  row cannot be built, and fails with that record's exception, if there is one.
\<close>

lemma for_record_calls: "calls (fst (for_record sid rs w)) = calls w"
  by (induction rs arbitrary: w) (auto simp: print_def split: sum.splits)

lemma for_record_eq:
  "for_record sid rs w =
     (w\<lparr>stdout := stdout w @ map (\<lambda>r. projr (record_row sid r)) (takeWhile (\<lambda>r. \<not> isl (record_row sid r)) rs)\<rparr>,
      case find (\<lambda>r. isl (record_row sid r)) rs of
        None \<Rightarrow> Inr ()
      | Some r \<Rightarrow> Inl (projl (record_row sid r)))"
  by (induction rs arbitrary: w) (auto simp: print_def split: sum.splits)

lemma table_head_eq:
  "table_head =
     [format_center 20 (str ''Shard'') @ [space] @ format_center 60 (str ''Position'') @ [space] @
        format_left 40 (str ''Message''),
      replicate 20 dash @ [space] @ replicate 60 dash @ [space] @ replicate 40 dash]"
  by (simp add: table_head_def format_center_def format_left_def str_def Let_def)

lemma main_unfold:
  "main boto3 args init =
    (case boto3 (str ''kinesis'') (region args) of
       Inl m \<Rightarrow> (\<lparr>calls = [Boto3Client (str ''kinesis'') (region args)], stdout = []\<rparr>,
                 Inl (ClientError m))
     | Inr kinesis \<Rightarrow>
        (case get_shard_iterator kinesis (stream_name args) (shard_id args) (str ''TRIM_HORIZON'') of
           Inl m \<Rightarrow>
             (\<lparr>calls = [Boto3Client (str ''kinesis'') (region args),
                        GetShardIterator (stream_name args) (shard_id args) (str ''TRIM_HORIZON'')],
               stdout = []\<rparr>, Inl (ClientError m))
         | Inr itr \<Rightarrow>
            (case ShardIterator itr of
               None \<Rightarrow>
                 (\<lparr>calls = [Boto3Client (str ''kinesis'') (region args),
                        GetShardIterator (stream_name args) (shard_id args) (str ''TRIM_HORIZON'')],
                   stdout = []\<rparr>, Inl (KeyError (str ''ShardIterator'')))
             | Some c \<Rightarrow>
                (case get_records kinesis c 200 of
                   Inl m \<Rightarrow>
                     (\<lparr>calls = [Boto3Client (str ''kinesis'') (region args),
                        GetShardIterator (stream_name args) (shard_id args) (str ''TRIM_HORIZON''),
                        GetRecords c 200],
                       stdout = []\<rparr>, Inl (ClientError m))
                 | Inr resp \<Rightarrow>
                     for_record (shard_id args) (Records resp)
                       \<lparr>calls = [Boto3Client (str ''kinesis'') (region args),
                        GetShardIterator (stream_name args) (shard_id args) (str ''TRIM_HORIZON''),
                        GetRecords c 200],
                        stdout = table_head\<rparr>))))"
  unfolding table_head_eq
  by (simp add: main_def init_def invoke_def print_def fmt_format_def Let_def
         format_center_def format_left_def split: sum.splits option.splits)

lemmas orders_defs =
  orders_boto3_def orders_args_def orders_client_def orders_iterator_def orders_records_def
  str_def hello_def

subsection \<open>Runs on the concrete service\<close>

text \<open>
  The model evaluated on four shards of the concrete service: a batch of one record,
  an empty batch, a batch whose second payload is not UTF-8, and an unknown shard.
\<close>

lemma utf_8_hello: "utf_8 hello = Some (str ''hello'')"
  by (simp add: hello_def str_def)

lemma utf_8_bad: "utf_8 [0x68, 0xFF] = None"
  by simp

lemma utf_8_letters: "utf_8 (replicate n 0x61) = Some (replicate n 97)"
  by (induction n) simp_all

lemmas run_defs =
  main_unfold orders_defs record_row_def decode_def fmt_format_def format_center_def
  format_left_def table_head_def print_def Let_def

lemma run_shard_1:
  "main orders_boto3 (orders_args ''shardId-0001'') init =
     (\<lparr>calls = [Boto3Client (str ''kinesis'') (Some (str ''us-east-1'')),
                GetShardIterator (Some (str ''orders'')) (Some (str ''shardId-0001''))
                  (str ''TRIM_HORIZON''),
                GetRecords (str ''abc123'') 200],
       stdout = table_head @
         [replicate 4 space @ str ''shardId-0001'' @ replicate 4 space @ [space] @
          replicate 28 space @ str ''4956'' @ replicate 28 space @ [space] @
          str ''hello'' @ replicate 35 space]\<rparr>, Inr ())"
  by (simp add: run_defs)

lemma run_shard_2:
  "main orders_boto3 (orders_args ''shardId-0002'') init =
     (\<lparr>calls = [Boto3Client (str ''kinesis'') (Some (str ''us-east-1'')),
                GetShardIterator (Some (str ''orders'')) (Some (str ''shardId-0002''))
                  (str ''TRIM_HORIZON''),
                GetRecords (str ''empty'') 200],
       stdout = table_head\<rparr>, Inr ())"
  by (simp add: run_defs)

lemma run_shard_3:
  "main orders_boto3 (orders_args ''shardId-0003'') init =
     (\<lparr>calls = [Boto3Client (str ''kinesis'') (Some (str ''us-east-1'')),
                GetShardIterator (Some (str ''orders'')) (Some (str ''shardId-0003''))
                  (str ''TRIM_HORIZON''),
                GetRecords (str ''mixed'') 200],
       stdout = table_head @
         [replicate 4 space @ str ''shardId-0003'' @ replicate 4 space @ [space] @
          replicate 28 space @ str ''4956'' @ replicate 28 space @ [space] @
          str ''hello'' @ replicate 35 space]\<rparr>, Inl UnicodeDecodeError)"
  by (simp add: run_defs)

lemma run_shard_9:
  "main orders_boto3 (orders_args ''shardId-0009'') init =
     (\<lparr>calls = [Boto3Client (str ''kinesis'') (Some (str ''us-east-1'')),
                GetShardIterator (Some (str ''orders'')) (Some (str ''shardId-0009''))
                  (str ''TRIM_HORIZON'')],
       stdout = []\<rparr>, Inl (ClientError (str ''ResourceNotFoundException'')))"
  by (simp add: run_defs)

subsection \<open>One fetch, with the iterator that was returned\<close>

text \<open>
  C1. When \<open>get_shard_iterator\<close> returns an iterator \<open>C\<close>, the calls of the run are
  exactly three: the client is created, the iterator is requested, and \<open>get_records\<close>
  is called once, with \<open>C\<close> and the limit 200. Nothing follows it, whatever
  \<open>get_records\<close> raises or returns, whatever next iterator comes back.
\<close>

theorem main_fetches_once:
  assumes "boto3 (str ''kinesis'') (region args) = Inr kinesis"
    and "get_shard_iterator kinesis (stream_name args) (shard_id args) (str ''TRIM_HORIZON'') = Inr itr"
    and "ShardIterator itr = Some C"
  shows "calls (fst (main boto3 args init)) =
           [Boto3Client (str ''kinesis'') (region args),
            GetShardIterator (stream_name args) (shard_id args) (str ''TRIM_HORIZON''),
            GetRecords C 200]"
  using assms by (simp add: main_unfold for_record_calls split: sum.splits)

text \<open>The run on shard 1 of the concrete service.\<close>

theorem main_fetches_once_witness:
  "orders_boto3 (str ''kinesis'') (region (orders_args ''shardId-0001'')) = Inr orders_client \<and>
   get_shard_iterator orders_client (stream_name (orders_args ''shardId-0001''))
     (shard_id (orders_args ''shardId-0001'')) (str ''TRIM_HORIZON'')
     = Inr \<lparr>ShardIterator = Some (str ''abc123'')\<rparr> \<and>
   calls (fst (main orders_boto3 (orders_args ''shardId-0001'') init)) =
     [Boto3Client (str ''kinesis'') (Some (str ''us-east-1'')),
      GetShardIterator (Some (str ''orders'')) (Some (str ''shardId-0001'')) (str ''TRIM_HORIZON''),
      GetRecords (str ''abc123'') 200]"
proof -
  have b: "orders_boto3 (str ''kinesis'') (region (orders_args ''shardId-0001'')) = Inr orders_client"
    by (simp add: orders_defs)
  have g: "get_shard_iterator orders_client (stream_name (orders_args ''shardId-0001''))
     (shard_id (orders_args ''shardId-0001'')) (str ''TRIM_HORIZON'')
     = Inr \<lparr>ShardIterator = Some (str ''abc123'')\<rparr>"
    by (simp add: orders_defs)
  have s: "ShardIterator \<lparr>ShardIterator = Some (str ''abc123'')\<rparr> = Some (str ''abc123'')"
    by simp
  from main_fetches_once [of orders_boto3 "orders_args ''shardId-0001''", OF b g s] b g
  show ?thesis
    by (simp add: orders_args_def)
qed

subsection \<open>No fetch without an iterator\<close>

text \<open>
  C5. When \<open>get_shard_iterator\<close> raises, the run ends there with that exception: the
  calls are the creation of the client and the failed request, \<open>get_records\<close> is not
  called and nothing is printed. And in every run, a call of \<open>get_records\<close> in the
  list of calls means that \<open>get_shard_iterator\<close> returned the iterator it is called
  with, and it comes after that request.
\<close>

theorem main_iterator_before_fetch:
  "(\<forall>kinesis m.
      boto3 (str ''kinesis'') (region args) = Inr kinesis \<and>
      get_shard_iterator kinesis (stream_name args) (shard_id args) (str ''TRIM_HORIZON'') = Inl m
      \<longrightarrow> main boto3 args init =
            (\<lparr>calls = [Boto3Client (str ''kinesis'') (region args),
                       GetShardIterator (stream_name args) (shard_id args) (str ''TRIM_HORIZON'')],
              stdout = []\<rparr>, Inl (ClientError m))) \<and>
   (\<forall>c l. GetRecords c l \<in> set (calls (fst (main boto3 args init)))
      \<longrightarrow> (\<exists>kinesis itr.
            boto3 (str ''kinesis'') (region args) = Inr kinesis \<and>
            get_shard_iterator kinesis (stream_name args) (shard_id args) (str ''TRIM_HORIZON'')
              = Inr itr \<and>
            ShardIterator itr = Some c \<and>
            calls (fst (main boto3 args init)) =
              [Boto3Client (str ''kinesis'') (region args),
               GetShardIterator (stream_name args) (shard_id args) (str ''TRIM_HORIZON''),
               GetRecords c l]))"
proof (intro conjI allI impI)
  fix kinesis m
  assume "boto3 (str ''kinesis'') (region args) = Inr kinesis \<and>
      get_shard_iterator kinesis (stream_name args) (shard_id args) (str ''TRIM_HORIZON'') = Inl m"
  then show "main boto3 args init =
            (\<lparr>calls = [Boto3Client (str ''kinesis'') (region args),
                       GetShardIterator (stream_name args) (shard_id args) (str ''TRIM_HORIZON'')],
              stdout = []\<rparr>, Inl (ClientError m))"
    by (simp add: main_unfold)
next
  fix c l
  assume "GetRecords c l \<in> set (calls (fst (main boto3 args init)))"
  then show "\<exists>kinesis itr.
            boto3 (str ''kinesis'') (region args) = Inr kinesis \<and>
            get_shard_iterator kinesis (stream_name args) (shard_id args) (str ''TRIM_HORIZON'')
              = Inr itr \<and>
            ShardIterator itr = Some c \<and>
            calls (fst (main boto3 args init)) =
              [Boto3Client (str ''kinesis'') (region args),
               GetShardIterator (stream_name args) (shard_id args) (str ''TRIM_HORIZON''),
               GetRecords c l]"
    by (auto simp: main_unfold for_record_calls split: sum.splits option.splits)
qed

text \<open>An unknown shard for the first part, shard 1 for the second.\<close>

theorem main_iterator_before_fetch_witness:
  "get_shard_iterator orders_client (Some (str ''orders'')) (Some (str ''shardId-0009''))
     (str ''TRIM_HORIZON'') = Inl (str ''ResourceNotFoundException'') \<and>
   main orders_boto3 (orders_args ''shardId-0009'') init =
     (\<lparr>calls = [Boto3Client (str ''kinesis'') (Some (str ''us-east-1'')),
                GetShardIterator (Some (str ''orders'')) (Some (str ''shardId-0009''))
                  (str ''TRIM_HORIZON'')],
       stdout = []\<rparr>, Inl (ClientError (str ''ResourceNotFoundException''))) \<and>
   GetRecords (str ''abc123'') 200
     \<in> set (calls (fst (main orders_boto3 (orders_args ''shardId-0001'') init))) \<and>
   get_shard_iterator orders_client (Some (str ''orders'')) (Some (str ''shardId-0001''))
     (str ''TRIM_HORIZON'') = Inr \<lparr>ShardIterator = Some (str ''abc123'')\<rparr>"
proof -
  have b: "orders_boto3 (str ''kinesis'') (region (orders_args ''shardId-0009'')) = Inr orders_client"
    by (simp add: orders_defs)
  have g: "get_shard_iterator orders_client (stream_name (orders_args ''shardId-0009''))
     (shard_id (orders_args ''shardId-0009'')) (str ''TRIM_HORIZON'')
       = Inl (str ''ResourceNotFoundException'')"
    by (simp add: orders_defs)
  have r: "GetRecords (str ''abc123'') 200
     \<in> set (calls (fst (main orders_boto3 (orders_args ''shardId-0001'') init)))"
    by (simp add: run_shard_1)
  from main_iterator_before_fetch [of orders_boto3 "orders_args ''shardId-0009''"] b g
  have 1: "main orders_boto3 (orders_args ''shardId-0009'') init =
     (\<lparr>calls = [Boto3Client (str ''kinesis'') (Some (str ''us-east-1'')),
                GetShardIterator (Some (str ''orders'')) (Some (str ''shardId-0009''))
                  (str ''TRIM_HORIZON'')],
       stdout = []\<rparr>, Inl (ClientError (str ''ResourceNotFoundException'')))"
    by (simp add: orders_args_def)
  from main_iterator_before_fetch [of orders_boto3 "orders_args ''shardId-0001''"] r
  obtain kinesis itr where
    k: "orders_boto3 (str ''kinesis'') (region (orders_args ''shardId-0001'')) = Inr kinesis"
    and i: "get_shard_iterator kinesis (stream_name (orders_args ''shardId-0001''))
       (shard_id (orders_args ''shardId-0001'')) (str ''TRIM_HORIZON'') = Inr itr"
    and s: "ShardIterator itr = Some (str ''abc123'')"
    by blast
  from k have "kinesis = orders_client" by (simp add: orders_defs)
  with i s have 2: "get_shard_iterator orders_client (Some (str ''orders''))
     (Some (str ''shardId-0001'')) (str ''TRIM_HORIZON'') = Inr \<lparr>ShardIterator = Some (str ''abc123'')\<rparr>"
    by (simp add: orders_args_def)
  from g 1 r 2 show ?thesis by (simp add: orders_args_def)
qed

subsection \<open>An empty batch\<close>

text \<open>
  C6. When the fetch returns no record, the run succeeds and the output is exactly two
  lines: the header and the row of dashes.
\<close>

theorem main_empty_batch:
  assumes "boto3 (str ''kinesis'') (region args) = Inr kinesis"
    and "get_shard_iterator kinesis (stream_name args) (shard_id args) (str ''TRIM_HORIZON'') = Inr itr"
    and "ShardIterator itr = Some C"
    and "get_records kinesis C 200 = Inr resp"
    and "Records resp = []"
  shows "snd (main boto3 args init) = Inr () \<and>
         stdout (fst (main boto3 args init)) =
           [replicate 7 space @ str ''Shard'' @ replicate 8 space @ [space] @
              replicate 26 space @ str ''Position'' @ replicate 26 space @ [space] @
              str ''Message'' @ replicate 33 space,
            replicate 20 dash @ [space] @ replicate 60 dash @ [space] @ replicate 40 dash]"
  using assms by (simp add: main_unfold table_head_def)

text \<open>The run on shard 2, which is empty.\<close>

theorem main_empty_batch_witness:
  "get_records orders_client (str ''empty'') 200
     = Inr \<lparr>Records = [], NextShardIterator = Some (str ''empty+'')\<rparr> \<and>
   snd (main orders_boto3 (orders_args ''shardId-0002'') init) = Inr () \<and>
   length (stdout (fst (main orders_boto3 (orders_args ''shardId-0002'') init))) = 2"
proof -
  have b: "orders_boto3 (str ''kinesis'') (region (orders_args ''shardId-0002'')) = Inr orders_client"
    by (simp add: orders_defs)
  have g: "get_shard_iterator orders_client (stream_name (orders_args ''shardId-0002''))
     (shard_id (orders_args ''shardId-0002'')) (str ''TRIM_HORIZON'')
     = Inr \<lparr>ShardIterator = Some (str ''empty'')\<rparr>"
    by (simp add: orders_defs)
  have s: "ShardIterator \<lparr>ShardIterator = Some (str ''empty'')\<rparr> = Some (str ''empty'')"
    by simp
  have f: "get_records orders_client (str ''empty'') 200
     = Inr \<lparr>Records = [], NextShardIterator = Some (str ''empty+'')\<rparr>"
    by (simp add: orders_defs)
  have e: "Records \<lparr>Records = [], NextShardIterator = Some (str ''empty+'')\<rparr> = []"
    by simp
  from main_empty_batch [of orders_boto3 "orders_args ''shardId-0002''", OF b g s f e] f
  show ?thesis by simp
qed

subsection \<open>The request and the limit are constants\<close>

text \<open>
  C8. The command line reaches \<open>main\<close> only as the namespace \<open>args\<close>, of which \<open>main\<close>
  reads the stream name, the shard id and the region. For every namespace, so for
  whatever any flag has put into it, and for every client: a request for a shard
  iterator in the run asks for \<open>TRIM_HORIZON\<close> on the stream and the shard of the
  namespace, and a fetch has the limit 200. The request is made in every run in which
  the client is created, and the fetch in every run in which the request returns an
  iterator.
\<close>

theorem main_fixed_request:
  "(\<forall>s sh t. GetShardIterator s sh t \<in> set (calls (fst (main boto3 args init)))
      \<longrightarrow> s = stream_name args \<and> sh = shard_id args \<and> t = str ''TRIM_HORIZON'') \<and>
   (\<forall>c l. GetRecords c l \<in> set (calls (fst (main boto3 args init))) \<longrightarrow> l = 200) \<and>
   (\<forall>kinesis. boto3 (str ''kinesis'') (region args) = Inr kinesis \<longrightarrow>
      GetShardIterator (stream_name args) (shard_id args) (str ''TRIM_HORIZON'')
        \<in> set (calls (fst (main boto3 args init))) \<and>
      (\<forall>itr C.
         get_shard_iterator kinesis (stream_name args) (shard_id args) (str ''TRIM_HORIZON'')
           = Inr itr \<and> ShardIterator itr = Some C \<longrightarrow>
         GetRecords C 200 \<in> set (calls (fst (main boto3 args init)))))"
proof (intro conjI allI impI)
  fix s sh t
  assume "GetShardIterator s sh t \<in> set (calls (fst (main boto3 args init)))"
  then show "s = stream_name args" "sh = shard_id args" "t = str ''TRIM_HORIZON''"
    by (auto simp: main_unfold for_record_calls split: sum.splits option.splits)
next
  fix c l
  assume "GetRecords c l \<in> set (calls (fst (main boto3 args init)))"
  then show "l = 200"
    by (auto simp: main_unfold for_record_calls split: sum.splits option.splits)
next
  fix kinesis
  assume "boto3 (str ''kinesis'') (region args) = Inr kinesis"
  then show "GetShardIterator (stream_name args) (shard_id args) (str ''TRIM_HORIZON'')
        \<in> set (calls (fst (main boto3 args init)))"
    by (simp add: main_unfold for_record_calls split: sum.splits option.splits)
next
  fix kinesis itr C
  assume "boto3 (str ''kinesis'') (region args) = Inr kinesis"
    and "get_shard_iterator kinesis (stream_name args) (shard_id args) (str ''TRIM_HORIZON'')
           = Inr itr \<and> ShardIterator itr = Some C"
  then show "GetRecords C 200 \<in> set (calls (fst (main boto3 args init)))"
    by (simp add: main_unfold for_record_calls split: sum.splits)
qed

text \<open>The run on shard 1 makes both calls.\<close>

theorem main_fixed_request_witness:
  "GetShardIterator (Some (str ''orders'')) (Some (str ''shardId-0001'')) (str ''TRIM_HORIZON'')
     \<in> set (calls (fst (main orders_boto3 (orders_args ''shardId-0001'') init))) \<and>
   GetRecords (str ''abc123'') 200
     \<in> set (calls (fst (main orders_boto3 (orders_args ''shardId-0001'') init))) \<and>
   stream_name (orders_args ''shardId-0001'') = Some (str ''orders'') \<and>
   shard_id (orders_args ''shardId-0001'') = Some (str ''shardId-0001'')"
proof -
  have g: "GetShardIterator (Some (str ''orders'')) (Some (str ''shardId-0001''))
      (str ''TRIM_HORIZON'')
      \<in> set (calls (fst (main orders_boto3 (orders_args ''shardId-0001'') init)))"
    by (simp add: run_shard_1)
  have r: "GetRecords (str ''abc123'') 200
      \<in> set (calls (fst (main orders_boto3 (orders_args ''shardId-0001'') init)))"
    by (simp add: run_shard_1)
  from main_fixed_request [of orders_boto3 "orders_args ''shardId-0001''"] g
  have "Some (str ''orders'') = stream_name (orders_args ''shardId-0001'') \<and>
        Some (str ''shardId-0001'') = shard_id (orders_args ''shardId-0001'')"
    by blast
  with g r show ?thesis by simp
qed

subsection \<open>What the loop has printed when it ends\<close>

text \<open>
  With a shard id, the row of a record is built exactly when its payload is UTF-8;
  without one, no row can be built. The loop prints the rows of the first \<open>k\<close>
  records, where record \<open>k\<close> is the first whose row cannot be built, and ends with
  that record's exception; with no such record it prints all rows and returns. Once
  the batch is fetched, \<open>main\<close> is this loop after the two lines of the head.
\<close>

lemma record_row_Some:
  "record_row (Some sid) r =
     (case utf_8 (Data r) of
        None \<Rightarrow> Inl UnicodeDecodeError
      | Some m \<Rightarrow>
          Inr (format_center 20 sid @ [space] @ format_center 60 (SequenceNumber r) @ [space] @
               format_left 40 m))"
  by (simp add: record_row_def decode_def fmt_format_def split: option.splits)

lemma record_row_None:
  "record_row None r = (if valid_utf_8 (Data r) then Inl TypeError else Inl UnicodeDecodeError)"
  by (simp add: record_row_def decode_def fmt_format_def valid_utf_8_def split: option.splits)

lemma for_record_rows:
  fixes sid rs w
  defines "out \<equiv> stdout (fst (for_record sid rs w))"
  shows "\<exists>k\<le>length rs.
           out = stdout w @ drop (length (stdout w)) out \<and>
           length out = length (stdout w) + k \<and>
           (\<forall>j<k. record_row sid (rs ! j) = Inr (out ! (length (stdout w) + j))) \<and>
           (if k = length rs then snd (for_record sid rs w) = Inr ()
            else \<exists>e. record_row sid (rs ! k) = Inl e \<and> snd (for_record sid rs w) = Inl e)"
proof -
  define P where "P = (\<lambda>r. \<not> isl (record_row sid r))"
  define k where "k = length (takeWhile P rs)"
  define f where "f = (\<lambda>r. projr (record_row sid r))"
  have out: "out = stdout w @ map f (takeWhile P rs)"
    by (simp add: out_def for_record_eq P_def f_def)
  have res: "snd (for_record sid rs w) =
      (case find (\<lambda>r. isl (record_row sid r)) rs of
         None \<Rightarrow> Inr () | Some r \<Rightarrow> Inl (projl (record_row sid r)))"
    by (simp add: for_record_eq)
  have le: "k \<le> length rs"
    by (simp add: k_def length_takeWhile_le)
  have before: "P (rs ! j)" "takeWhile P rs ! j = rs ! j" if "j < k" for j
  proof -
    from that have "takeWhile P rs ! j \<in> set (takeWhile P rs)"
      by (simp add: k_def)
    then have "P (takeWhile P rs ! j)"
      by (rule set_takeWhileD [THEN conjunct2])
    moreover from that show "takeWhile P rs ! j = rs ! j"
      by (simp add: k_def takeWhile_nth)
    ultimately show "P (rs ! j)" by simp
  qed
  have rows: "record_row sid (rs ! j) = Inr (out ! (length (stdout w) + j))" if "j < k" for j
  proof -
    from that have "out ! (length (stdout w) + j) = f (rs ! j)"
      by (simp add: out k_def before(2))
    moreover from that have "\<not> isl (record_row sid (rs ! j))"
      using before(1) by (simp add: P_def)
    ultimately show ?thesis
      by (cases "record_row sid (rs ! j)") (simp_all add: f_def)
  qed
  have fin: "snd (for_record sid rs w) = Inr ()" if "k = length rs"
  proof -
    have "\<not> isl (record_row sid r)" if "r \<in> set rs" for r
    proof -
      from \<open>r \<in> set rs\<close> obtain j where "j < length rs" "rs ! j = r"
        by (auto simp: in_set_conv_nth)
      with \<open>k = length rs\<close> before(1) [of j] show ?thesis by (simp add: P_def)
    qed
    then have "find (\<lambda>r. isl (record_row sid r)) rs = None"
      by (simp add: find_None_iff)
    then show ?thesis by (simp add: res)
  qed
  have stop: "\<exists>e. record_row sid (rs ! k) = Inl e \<and> snd (for_record sid rs w) = Inl e"
    if "k \<noteq> length rs"
  proof -
    from that le have lt: "k < length rs" by simp
    then have "\<not> P (rs ! k)"
      unfolding k_def by (rule nth_length_takeWhile)
    then have isl: "isl (record_row sid (rs ! k))" by (simp add: P_def)
    moreover have "\<forall>j<k. \<not> isl (record_row sid (rs ! j))"
      using before(1) by (simp add: P_def)
    ultimately have "find (\<lambda>r. isl (record_row sid r)) rs = Some (rs ! k)"
      using lt by (auto simp: find_Some_iff)
    then have "snd (for_record sid rs w) = Inl (projl (record_row sid (rs ! k)))"
      by (simp add: res)
    with isl show ?thesis
      by (cases "record_row sid (rs ! k)") simp_all
  qed
  from le out rows fin stop show ?thesis
    by (intro exI [of _ k]) (auto simp: k_def)
qed

lemma length_table_head: "length table_head = 2"
  by (simp add: table_head_def)

lemma main_render:
  assumes "boto3 (str ''kinesis'') (region args) = Inr kinesis"
    and "get_shard_iterator kinesis (stream_name args) (shard_id args) (str ''TRIM_HORIZON'') = Inr itr"
    and "ShardIterator itr = Some C"
    and "get_records kinesis C 200 = Inr resp"
  shows "\<exists>k\<le>length (Records resp).
           take 2 (stdout (fst (main boto3 args init))) = table_head \<and>
           length (stdout (fst (main boto3 args init))) = 2 + k \<and>
           (\<forall>j<k. record_row (shard_id args) (Records resp ! j)
                    = Inr (stdout (fst (main boto3 args init)) ! (2 + j))) \<and>
           (if k = length (Records resp) then snd (main boto3 args init) = Inr ()
            else \<exists>e. record_row (shard_id args) (Records resp ! k) = Inl e \<and>
                     snd (main boto3 args init) = Inl e)"
proof -
  define w where "w = \<lparr>calls = [Boto3Client (str ''kinesis'') (region args),
                        GetShardIterator (stream_name args) (shard_id args) (str ''TRIM_HORIZON''),
                        GetRecords C 200],
                        stdout = table_head\<rparr>"
  define out where "out = stdout (fst (main boto3 args init))"
  have m: "for_record (shard_id args) (Records resp) w = main boto3 args init"
    using assms by (simp add: main_unfold w_def)
  have l: "stdout w = table_head"
    by (simp add: w_def)
  have t: "take 2 out = table_head" if "out = table_head @ drop 2 out"
  proof -
    have "take 2 (table_head @ drop 2 out) = table_head"
      by (simp add: length_table_head)
    with that show ?thesis by simp
  qed
  have "\<exists>k\<le>length (Records resp).
           out = table_head @ drop 2 out \<and>
           length out = 2 + k \<and>
           (\<forall>j<k. record_row (shard_id args) (Records resp ! j) = Inr (out ! (2 + j))) \<and>
           (if k = length (Records resp) then snd (main boto3 args init) = Inr ()
            else \<exists>e. record_row (shard_id args) (Records resp ! k) = Inl e \<and>
                     snd (main boto3 args init) = Inl e)"
    using for_record_rows [where rs = "Records resp" and sid = "shard_id args" and w = w]
    unfolding m l length_table_head out_def .
  then obtain k where "k \<le> length (Records resp)"
    and "out = table_head @ drop 2 out"
    and "length out = 2 + k"
    and "\<forall>j<k. record_row (shard_id args) (Records resp ! j) = Inr (out ! (2 + j))"
    and "if k = length (Records resp) then snd (main boto3 args init) = Inr ()
            else \<exists>e. record_row (shard_id args) (Records resp ! k) = Inl e \<and>
                     snd (main boto3 args init) = Inl e"
    by (elim exE conjE)
  then show ?thesis
    unfolding out_def [symmetric] using t by (intro exI [of _ k] conjI)
qed

subsection \<open>One row for each record, in order\<close>

text \<open>
  C2. When the fetch returns a batch whose payloads are all valid UTF-8, and the
  command line gave a shard id, the run succeeds and prints the header, the row of
  dashes and then one row for each record, in the order of the batch: row \<open>i\<close> is the
  format string applied to the shard id, the sequence number of record \<open>i\<close> and the
  decoded payload of record \<open>i\<close>. This holds for a batch of any length, so for one of
  1 to 200 records.
\<close>

theorem main_prints_batch:
  assumes "boto3 (str ''kinesis'') (region args) = Inr kinesis"
    and "get_shard_iterator kinesis (stream_name args) (shard_id args) (str ''TRIM_HORIZON'') = Inr itr"
    and "ShardIterator itr = Some C"
    and "get_records kinesis C 200 = Inr resp"
    and "shard_id args = Some sid"
    and "\<forall>r\<in>set (Records resp). valid_utf_8 (Data r)"
  shows "snd (main boto3 args init) = Inr () \<and>
         take 2 (stdout (fst (main boto3 args init))) = table_head \<and>
         length (stdout (fst (main boto3 args init))) = 2 + length (Records resp) \<and>
         (\<forall>i<length (Records resp).
            \<exists>m. decode (Data (Records resp ! i)) = Inr m \<and>
                stdout (fst (main boto3 args init)) ! (2 + i) =
                  format_center 20 sid @ [space] @
                  format_center 60 (SequenceNumber (Records resp ! i)) @ [space] @
                  format_left 40 m)"
proof -
  from main_render [of boto3 args, OF assms(1-4)] obtain k where k: "k \<le> length (Records resp)"
    and h: "take 2 (stdout (fst (main boto3 args init))) = table_head"
    and n: "length (stdout (fst (main boto3 args init))) = 2 + k"
    and r: "\<forall>j<k. record_row (shard_id args) (Records resp ! j)
                    = Inr (stdout (fst (main boto3 args init)) ! (2 + j))"
    and e: "if k = length (Records resp) then snd (main boto3 args init) = Inr ()
            else \<exists>e. record_row (shard_id args) (Records resp ! k) = Inl e \<and>
                     snd (main boto3 args init) = Inl e"
    by (elim exE conjE)
  have all: "k = length (Records resp)"
  proof (rule ccontr)
    assume "k \<noteq> length (Records resp)"
    with k have lt: "k < length (Records resp)" by simp
    with e obtain x where "record_row (Some sid) (Records resp ! k) = Inl x"
      by (auto simp: assms(5))
    moreover from lt assms(6) have "valid_utf_8 (Data (Records resp ! k))"
      by simp
    ultimately show False
      by (simp add: record_row_Some valid_utf_8_def split: option.splits)
  qed
  have "\<exists>m. decode (Data (Records resp ! i)) = Inr m \<and>
                stdout (fst (main boto3 args init)) ! (2 + i) =
                  format_center 20 sid @ [space] @
                  format_center 60 (SequenceNumber (Records resp ! i)) @ [space] @
                  format_left 40 m" if "i < length (Records resp)" for i
  proof -
    from that r all have "record_row (Some sid) (Records resp ! i)
        = Inr (stdout (fst (main boto3 args init)) ! (2 + i))"
      by (simp add: assms(5))
    then show ?thesis
      by (simp add: record_row_Some decode_def split: option.splits)
  qed
  moreover from all e have "snd (main boto3 args init) = Inr ()" by simp
  moreover from all n have "length (stdout (fst (main boto3 args init))) = 2 + length (Records resp)"
    by simp
  ultimately show ?thesis using h by blast
qed

text \<open>The run on shard 1: one record, with the payload \<open>hello\<close>.\<close>

theorem main_prints_batch_witness:
  "get_records orders_client (str ''abc123'') 200 =
     Inr \<lparr>Records = [\<lparr>SequenceNumber = str ''4956'', Data = hello\<rparr>],
          NextShardIterator = Some (str ''abc123+'')\<rparr> \<and>
   valid_utf_8 hello \<and>
   decode hello = Inr (str ''hello'') \<and>
   snd (main orders_boto3 (orders_args ''shardId-0001'') init) = Inr () \<and>
   take 2 (stdout (fst (main orders_boto3 (orders_args ''shardId-0001'') init))) = table_head \<and>
   length (stdout (fst (main orders_boto3 (orders_args ''shardId-0001'') init))) = 3 \<and>
   stdout (fst (main orders_boto3 (orders_args ''shardId-0001'') init)) ! 2 =
     format_center 20 (str ''shardId-0001'') @ [space] @ format_center 60 (str ''4956'') @
     [space] @ format_left 40 (str ''hello'')"
proof -
  let ?resp = "\<lparr>Records = [\<lparr>SequenceNumber = str ''4956'', Data = hello\<rparr>],
          NextShardIterator = Some (str ''abc123+'')\<rparr>"
  let ?out = "stdout (fst (main orders_boto3 (orders_args ''shardId-0001'') init))"
  have b: "orders_boto3 (str ''kinesis'') (region (orders_args ''shardId-0001'')) = Inr orders_client"
    by (simp add: orders_defs)
  have g: "get_shard_iterator orders_client (stream_name (orders_args ''shardId-0001''))
     (shard_id (orders_args ''shardId-0001'')) (str ''TRIM_HORIZON'')
     = Inr \<lparr>ShardIterator = Some (str ''abc123'')\<rparr>"
    by (simp add: orders_defs)
  have s: "ShardIterator \<lparr>ShardIterator = Some (str ''abc123'')\<rparr> = Some (str ''abc123'')"
    by simp
  have f: "get_records orders_client (str ''abc123'') 200 = Inr ?resp"
    by (simp add: orders_defs)
  have i: "shard_id (orders_args ''shardId-0001'') = Some (str ''shardId-0001'')"
    by (simp add: orders_args_def)
  have v: "\<forall>r\<in>set (Records ?resp). valid_utf_8 (Data r)"
    by (simp add: valid_utf_8_def utf_8_hello)
  have d: "decode hello = Inr (str ''hello'')"
    by (simp add: decode_def utf_8_hello)
  from main_prints_batch [of orders_boto3 "orders_args ''shardId-0001''", OF b g s f i v]
  have r: "snd (main orders_boto3 (orders_args ''shardId-0001'') init) = Inr ()"
    and h: "take 2 ?out = table_head"
    and n: "length ?out = 3"
    and x: "\<exists>m. decode hello = Inr m \<and>
              ?out ! 2 = format_center 20 (str ''shardId-0001'') @ [space] @
                format_center 60 (str ''4956'') @ [space] @ format_left 40 m"
    by simp_all
  from x d have "?out ! 2 = format_center 20 (str ''shardId-0001'') @ [space] @
                format_center 60 (str ''4956'') @ [space] @ format_left 40 (str ''hello'')"
    by simp
  with f v d r h n show ?thesis by (simp add: valid_utf_8_def utf_8_hello)
qed

subsection \<open>Rows and columns\<close>

text \<open>
  A payload that is not UTF-8 gives no row, with or without a shard id. A column is
  its value with spaces around it, as long as the larger of the width and the value's
  length; a value at least as long as the width is the whole column.
\<close>

lemma record_row_invalid:
  "\<not> valid_utf_8 (Data r) \<Longrightarrow> record_row sid r = Inl UnicodeDecodeError"
  by (simp add: record_row_def decode_def valid_utf_8_def)

lemma record_row_Some_Inl:
  "record_row (Some sid) r = Inl e \<Longrightarrow> e = UnicodeDecodeError \<and> \<not> valid_utf_8 (Data r)"
  by (simp add: record_row_Some valid_utf_8_def split: option.splits)

lemma record_row_Some_Inr:
  "record_row (Some sid) r = Inr row \<Longrightarrow>
     \<exists>m. decode (Data r) = Inr m \<and>
         row = format_center 20 sid @ [space] @ format_center 60 (SequenceNumber r) @ [space] @
               format_left 40 m"
  by (simp add: record_row_Some decode_def split: option.splits)

lemma format_center_long: "width \<le> length s \<Longrightarrow> format_center width s = s"
  by (simp add: format_center_def)

lemma format_left_long: "width \<le> length s \<Longrightarrow> format_left width s = s"
  by (simp add: format_left_def)

lemma format_center_pads: "\<exists>l r. format_center width s = replicate l space @ s @ replicate r space"
proof (cases "width \<le> length s")
  case True
  then have "format_center width s = replicate 0 space @ s @ replicate 0 space"
    by (simp add: format_center_def)
  then show ?thesis by blast
next
  case False
  then have "format_center width s =
      replicate ((width - length s) div 2) space @ s @
      replicate (width - length s - (width - length s) div 2) space"
    by (simp add: format_center_def Let_def)
  then show ?thesis by blast
qed

lemma format_left_pads: "\<exists>r. format_left width s = s @ replicate r space"
proof (cases "width \<le> length s")
  case True
  then have "format_left width s = s @ replicate 0 space"
    by (simp add: format_left_def)
  then show ?thesis by blast
next
  case False
  then have "format_left width s = s @ replicate (width - length s) space"
    by (simp add: format_left_def)
  then show ?thesis by blast
qed

lemma length_format_center: "length (format_center width s) = max width (length s)"
  by (simp add: format_center_def Let_def)

lemma length_format_left: "length (format_left width s) = max width (length s)"
  by (simp add: format_left_def)

lemma wide_run:
  "orders_boto3 (str ''kinesis'') (region (orders_args ''shardId-0004'')) = Inr orders_client"
  "get_shard_iterator orders_client (stream_name (orders_args ''shardId-0004''))
     (shard_id (orders_args ''shardId-0004'')) (str ''TRIM_HORIZON'')
     = Inr \<lparr>ShardIterator = Some (str ''wide'')\<rparr>"
  "get_records orders_client (str ''wide'') 200 =
     Inr \<lparr>Records = [\<lparr>SequenceNumber = str ''4956'', Data = replicate 41 0x61\<rparr>],
          NextShardIterator = Some (str ''wide+'')\<rparr>"
  "shard_id (orders_args ''shardId-0004'') = Some (str ''shardId-0004'')"
  by (simp_all add: orders_defs)

subsection \<open>A payload that is not UTF-8\<close>

text \<open>
  C4. When the fetched batch has a record whose payload is not valid UTF-8, the run
  fails. It fails at a record \<open>k\<close> no later than that one, after printing the rows of
  the \<open>k\<close> records before it and nothing else, so no row stands for the record in any
  form and no later record is printed. With a shard id given, the exception is
  \<open>UnicodeDecodeError\<close>, record \<open>k\<close> is the first whose payload is not UTF-8, and the
  rows before it are those of the records before it.
\<close>

theorem main_invalid_payload_fails:
  assumes "boto3 (str ''kinesis'') (region args) = Inr kinesis"
    and "get_shard_iterator kinesis (stream_name args) (shard_id args) (str ''TRIM_HORIZON'') = Inr itr"
    and "ShardIterator itr = Some C"
    and "get_records kinesis C 200 = Inr resp"
    and "i < length (Records resp)"
    and "\<not> valid_utf_8 (Data (Records resp ! i))"
  shows "\<exists>e k. snd (main boto3 args init) = Inl e \<and> k \<le> i \<and>
           length (stdout (fst (main boto3 args init))) = 2 + k \<and>
           (\<forall>sid. shard_id args = Some sid \<longrightarrow>
              e = UnicodeDecodeError \<and>
              \<not> valid_utf_8 (Data (Records resp ! k)) \<and>
              (\<forall>j<k. \<exists>m. decode (Data (Records resp ! j)) = Inr m \<and>
                  stdout (fst (main boto3 args init)) ! (2 + j) =
                    format_center 20 sid @ [space] @
                    format_center 60 (SequenceNumber (Records resp ! j)) @ [space] @
                    format_left 40 m))"
proof -
  from main_render [of boto3 args, OF assms(1-4)] obtain k where k: "k \<le> length (Records resp)"
    and h: "take 2 (stdout (fst (main boto3 args init))) = table_head"
    and n: "length (stdout (fst (main boto3 args init))) = 2 + k"
    and r: "\<forall>j<k. record_row (shard_id args) (Records resp ! j)
                    = Inr (stdout (fst (main boto3 args init)) ! (2 + j))"
    and e: "if k = length (Records resp) then snd (main boto3 args init) = Inr ()
            else \<exists>e. record_row (shard_id args) (Records resp ! k) = Inl e \<and>
                     snd (main boto3 args init) = Inl e"
    by (elim exE conjE)
  have ki: "k \<le> i"
  proof (rule ccontr)
    assume "\<not> k \<le> i"
    then have "i < k" by simp
    with r have "record_row (shard_id args) (Records resp ! i)
        = Inr (stdout (fst (main boto3 args init)) ! (2 + i))"
      by simp
    with record_row_invalid [OF assms(6), of "shard_id args"] show False by simp
  qed
  with assms(5) have "k \<noteq> length (Records resp)" by simp
  with e obtain x where x: "record_row (shard_id args) (Records resp ! k) = Inl x"
    and res: "snd (main boto3 args init) = Inl x"
    by auto
  have "x = UnicodeDecodeError \<and>
        \<not> valid_utf_8 (Data (Records resp ! k)) \<and>
        (\<forall>j<k. \<exists>m. decode (Data (Records resp ! j)) = Inr m \<and>
            stdout (fst (main boto3 args init)) ! (2 + j) =
              format_center 20 sid @ [space] @
              format_center 60 (SequenceNumber (Records resp ! j)) @ [space] @
              format_left 40 m)" if sid: "shard_id args = Some sid" for sid
  proof (intro conjI allI impI)
    from x sid show "x = UnicodeDecodeError" "\<not> valid_utf_8 (Data (Records resp ! k))"
      using record_row_Some_Inl [of sid "Records resp ! k" x] by simp_all
  next
    fix j assume "j < k"
    with r sid have "record_row (Some sid) (Records resp ! j)
        = Inr (stdout (fst (main boto3 args init)) ! (2 + j))"
      by simp
    then show "\<exists>m. decode (Data (Records resp ! j)) = Inr m \<and>
            stdout (fst (main boto3 args init)) ! (2 + j) =
              format_center 20 sid @ [space] @
              format_center 60 (SequenceNumber (Records resp ! j)) @ [space] @
              format_left 40 m"
      by (rule record_row_Some_Inr)
  qed
  with res ki n show ?thesis by blast
qed

text \<open>The run on shard 3, whose second payload is \<open>68 FF\<close>.\<close>

theorem main_invalid_payload_fails_witness:
  "get_records orders_client (str ''mixed'') 200 =
     Inr \<lparr>Records = [\<lparr>SequenceNumber = str ''4956'', Data = hello\<rparr>,
                     \<lparr>SequenceNumber = str ''4957'', Data = [0x68, 0xFF]\<rparr>,
                     \<lparr>SequenceNumber = str ''4958'', Data = hello\<rparr>],
          NextShardIterator = Some (str ''mixed+'')\<rparr> \<and>
   \<not> valid_utf_8 [0x68, 0xFF] \<and>
   (\<exists>e k. snd (main orders_boto3 (orders_args ''shardId-0003'') init) = Inl e \<and> k \<le> 1 \<and>
      length (stdout (fst (main orders_boto3 (orders_args ''shardId-0003'') init))) = 2 + k \<and>
      e = UnicodeDecodeError)"
proof -
  let ?rs = "[\<lparr>SequenceNumber = str ''4956'', Data = hello\<rparr>,
              \<lparr>SequenceNumber = str ''4957'', Data = [0x68, 0xFF]\<rparr>,
              \<lparr>SequenceNumber = str ''4958'', Data = hello\<rparr>]"
  let ?resp = "\<lparr>Records = ?rs, NextShardIterator = Some (str ''mixed+'')\<rparr>"
  have b: "orders_boto3 (str ''kinesis'') (region (orders_args ''shardId-0003'')) = Inr orders_client"
    by (simp add: orders_defs)
  have g: "get_shard_iterator orders_client (stream_name (orders_args ''shardId-0003''))
     (shard_id (orders_args ''shardId-0003'')) (str ''TRIM_HORIZON'')
     = Inr \<lparr>ShardIterator = Some (str ''mixed'')\<rparr>"
    by (simp add: orders_defs)
  have s: "ShardIterator \<lparr>ShardIterator = Some (str ''mixed'')\<rparr> = Some (str ''mixed'')"
    by simp
  have f: "get_records orders_client (str ''mixed'') 200 = Inr ?resp"
    by (simp add: orders_defs)
  have i: "1 < length (Records ?resp)"
    by simp
  have v: "\<not> valid_utf_8 (Data (Records ?resp ! 1))"
    by (simp add: valid_utf_8_def utf_8_bad)
  have sid: "shard_id (orders_args ''shardId-0003'') = Some (str ''shardId-0003'')"
    by (simp add: orders_args_def)
  from main_invalid_payload_fails [of orders_boto3 "orders_args ''shardId-0003''", OF b g s f i v]
  obtain e k where "snd (main orders_boto3 (orders_args ''shardId-0003'') init) = Inl e"
    and "k \<le> 1"
    and "length (stdout (fst (main orders_boto3 (orders_args ''shardId-0003'') init))) = 2 + k"
    and "\<forall>sid. shard_id (orders_args ''shardId-0003'') = Some sid \<longrightarrow> e = UnicodeDecodeError"
    by blast
  with sid f v show ?thesis
    by (simp add: valid_utf_8_def utf_8_bad)
qed

subsection \<open>Values longer than their column\<close>

text \<open>
  C10. In the row of a record (printed when its payload and those before it decode),
  each of the three columns is the value with spaces around it, never a part of it: the
  shard id, the sequence number and the decoded payload appear in full. A value at
  least as long as its width (20, 60, 40) is the whole column, so a longer value
  makes the column as wide as the value.
\<close>

theorem main_prints_values_in_full:
  assumes "boto3 (str ''kinesis'') (region args) = Inr kinesis"
    and "get_shard_iterator kinesis (stream_name args) (shard_id args) (str ''TRIM_HORIZON'') = Inr itr"
    and "ShardIterator itr = Some C"
    and "get_records kinesis C 200 = Inr resp"
    and "shard_id args = Some sid"
    and "i < length (Records resp)"
    and "\<forall>j\<le>i. valid_utf_8 (Data (Records resp ! j))"
  shows "\<exists>m c1 c2 c3.
           decode (Data (Records resp ! i)) = Inr m \<and>
           stdout (fst (main boto3 args init)) ! (2 + i) = c1 @ [space] @ c2 @ [space] @ c3 \<and>
           (\<exists>l r. c1 = replicate l space @ sid @ replicate r space) \<and>
           (\<exists>l r. c2 = replicate l space @ SequenceNumber (Records resp ! i) @ replicate r space) \<and>
           (\<exists>r. c3 = m @ replicate r space) \<and>
           (20 \<le> length sid \<longrightarrow> c1 = sid) \<and>
           (60 \<le> length (SequenceNumber (Records resp ! i)) \<longrightarrow>
              c2 = SequenceNumber (Records resp ! i)) \<and>
           (40 \<le> length m \<longrightarrow> c3 = m)"
proof -
  from main_render [of boto3 args, OF assms(1-4)] obtain k where k: "k \<le> length (Records resp)"
    and h: "take 2 (stdout (fst (main boto3 args init))) = table_head"
    and n: "length (stdout (fst (main boto3 args init))) = 2 + k"
    and r: "\<forall>j<k. record_row (shard_id args) (Records resp ! j)
                    = Inr (stdout (fst (main boto3 args init)) ! (2 + j))"
    and e: "if k = length (Records resp) then snd (main boto3 args init) = Inr ()
            else \<exists>e. record_row (shard_id args) (Records resp ! k) = Inl e \<and>
                     snd (main boto3 args init) = Inl e"
    by (elim exE conjE)
  have "i < k"
  proof (rule ccontr)
    assume "\<not> i < k"
    then have ki: "k \<le> i" by simp
    with assms(6) have "k \<noteq> length (Records resp)" by simp
    with e obtain x where "record_row (Some sid) (Records resp ! k) = Inl x"
      by (auto simp: assms(5))
    then have "\<not> valid_utf_8 (Data (Records resp ! k))"
      by (simp add: record_row_Some_Inl)
    with ki assms(7) show False by simp
  qed
  with r have "record_row (Some sid) (Records resp ! i)
      = Inr (stdout (fst (main boto3 args init)) ! (2 + i))"
    by (simp add: assms(5))
  from record_row_Some_Inr [OF this] obtain m where m: "decode (Data (Records resp ! i)) = Inr m"
    and row: "stdout (fst (main boto3 args init)) ! (2 + i) =
        format_center 20 sid @ [space] @
        format_center 60 (SequenceNumber (Records resp ! i)) @ [space] @ format_left 40 m"
    by blast
  show ?thesis
  proof (rule exI [of _ m], rule exI [of _ "format_center 20 sid"],
      rule exI [of _ "format_center 60 (SequenceNumber (Records resp ! i))"],
      rule exI [of _ "format_left 40 m"], intro conjI impI)
    show "decode (Data (Records resp ! i)) = Inr m" by (rule m)
    show "stdout (fst (main boto3 args init)) ! (2 + i) =
        format_center 20 sid @ [space] @
        format_center 60 (SequenceNumber (Records resp ! i)) @ [space] @ format_left 40 m"
      by (rule row)
    show "\<exists>l r. format_center 20 sid = replicate l space @ sid @ replicate r space"
      by (rule format_center_pads)
    show "\<exists>l r. format_center 60 (SequenceNumber (Records resp ! i)) =
        replicate l space @ SequenceNumber (Records resp ! i) @ replicate r space"
      by (rule format_center_pads)
    show "\<exists>r. format_left 40 m = m @ replicate r space"
      by (rule format_left_pads)
    show "format_center 20 sid = sid" if "20 \<le> length sid"
      using that by (rule format_center_long)
    show "format_center 60 (SequenceNumber (Records resp ! i)) = SequenceNumber (Records resp ! i)"
      if "60 \<le> length (SequenceNumber (Records resp ! i))"
      using that by (rule format_center_long)
    show "format_left 40 m = m" if "40 \<le> length m"
      using that by (rule format_left_long)
  qed
qed

text \<open>The run on shard 4: the payload of 41 letters is the third column.\<close>

theorem main_prints_values_in_full_witness:
  "decode (replicate 41 0x61) = Inr (replicate 41 97) \<and>
   (40::nat) \<le> length (replicate 41 (97::nat)) \<and>
   (\<exists>c1 c2. stdout (fst (main orders_boto3 (orders_args ''shardId-0004'') init)) ! 2 =
      c1 @ [space] @ c2 @ [space] @ replicate 41 97)"
proof -
  let ?resp = "\<lparr>Records = [\<lparr>SequenceNumber = str ''4956'', Data = replicate 41 0x61\<rparr>],
          NextShardIterator = Some (str ''wide+'')\<rparr>"
  have s: "ShardIterator \<lparr>ShardIterator = Some (str ''wide'')\<rparr> = Some (str ''wide'')"
    by simp
  have i: "0 < length (Records ?resp)"
    by simp
  have d: "decode (replicate 41 0x61) = Inr (replicate 41 97)"
    by (simp add: decode_def utf_8_letters)
  have v: "\<forall>j\<le>0. valid_utf_8 (Data (Records ?resp ! j))"
    by (simp add: valid_utf_8_def utf_8_letters)
  from main_prints_values_in_full [of orders_boto3 "orders_args ''shardId-0004''",
      OF wide_run(1) wide_run(2) s wide_run(3) wide_run(4) i v]
  obtain m c1 c2 c3 where dm: "decode (Data (Records ?resp ! 0)) = Inr m"
    and row: "stdout (fst (main orders_boto3 (orders_args ''shardId-0004'') init)) ! (2 + 0) =
           c1 @ [space] @ c2 @ [space] @ c3"
    and long: "40 \<le> length m \<longrightarrow> c3 = m"
    by blast
  from dm d have m: "m = replicate 41 97" by simp
  with long have "c3 = replicate 41 97" by simp
  with row have "stdout (fst (main orders_boto3 (orders_args ''shardId-0004'') init)) ! 2 =
           c1 @ [space] @ c2 @ [space] @ replicate 41 97"
    by simp
  with d show ?thesis by auto
qed

subsection \<open>Runs that print nothing\<close>

text \<open>
  The run on shard 4, whose payload is longer than its column. And the runs that end
  before the table: unless the client is created, the iterator is returned and the
  batch is fetched, the run fails and nothing has been printed.
\<close>

lemma run_shard_4:
  "main orders_boto3 (orders_args ''shardId-0004'') init =
     (\<lparr>calls = [Boto3Client (str ''kinesis'') (Some (str ''us-east-1'')),
                GetShardIterator (Some (str ''orders'')) (Some (str ''shardId-0004''))
                  (str ''TRIM_HORIZON''),
                GetRecords (str ''wide'') 200],
       stdout = table_head @
         [replicate 4 space @ str ''shardId-0004'' @ replicate 4 space @ [space] @
          replicate 28 space @ str ''4956'' @ replicate 28 space @ [space] @
          replicate 41 97]\<rparr>, Inr ())"
  by (simp add: run_defs utf_8_letters)

lemma main_no_fetch:
  assumes "\<not> (\<exists>kinesis itr C resp.
      boto3 (str ''kinesis'') (region args) = Inr kinesis \<and>
      get_shard_iterator kinesis (stream_name args) (shard_id args) (str ''TRIM_HORIZON'') = Inr itr \<and>
      ShardIterator itr = Some C \<and>
      get_records kinesis C 200 = Inr resp)"
  shows "stdout (fst (main boto3 args init)) = [] \<and> (\<exists>e. snd (main boto3 args init) = Inl e)"
proof (cases "boto3 (str ''kinesis'') (region args)")
  case (Inl m)
  then show ?thesis by (simp add: main_unfold)
next
  case b: (Inr kinesis)
  show ?thesis
  proof (cases "get_shard_iterator kinesis (stream_name args) (shard_id args) (str ''TRIM_HORIZON'')")
    case (Inl m)
    with b show ?thesis by (simp add: main_unfold)
  next
    case g: (Inr itr)
    show ?thesis
    proof (cases "ShardIterator itr")
      case None
      with b g show ?thesis by (simp add: main_unfold)
    next
      case s: (Some C)
      show ?thesis
      proof (cases "get_records kinesis C 200")
        case (Inl m)
        with b g s show ?thesis by (simp add: main_unfold)
      next
        case (Inr resp)
        with b g s assms show ?thesis by blast
      qed
    qed
  qed
qed

subsection \<open>The output of a run that fails in the loop\<close>

text \<open>
  C3, as stated, does not hold: the rows are printed one by one, so a run that fails
  at a record leaves the head of the table and the rows before that record on the
  output. On shard 3 the second payload does not decode; the run ends with
  \<open>UnicodeDecodeError\<close> after printing the header, the dashes and the first row.
\<close>

theorem partial_table_counterexample:
  "snd (main orders_boto3 (orders_args ''shardId-0003'') init) = Inl UnicodeDecodeError \<and>
   stdout (fst (main orders_boto3 (orders_args ''shardId-0003'') init)) =
     table_head @
     [replicate 4 space @ str ''shardId-0003'' @ replicate 4 space @ [space] @
      replicate 28 space @ str ''4956'' @ replicate 28 space @ [space] @
      str ''hello'' @ replicate 35 space]"
  by (simp add: run_shard_3)

text \<open>
  C3, amended. Every run either fails before printing anything (the client is not
  created, the iterator is not returned, or the batch is not fetched), or it prints
  the header and the dashes and then the rows of the batch in order, up to the first
  record \<open>k\<close> whose row cannot be built: with no such record the whole table is printed
  and the run succeeds, otherwise the run fails with that record's exception and the
  output is the head and the rows of the \<open>k\<close> records before it.
\<close>

theorem main_output_prefix:
  "(stdout (fst (main boto3 args init)) = [] \<and> (\<exists>e. snd (main boto3 args init) = Inl e)) \<or>
   (\<exists>kinesis itr C resp k.
      boto3 (str ''kinesis'') (region args) = Inr kinesis \<and>
      get_shard_iterator kinesis (stream_name args) (shard_id args) (str ''TRIM_HORIZON'') = Inr itr \<and>
      ShardIterator itr = Some C \<and>
      get_records kinesis C 200 = Inr resp \<and>
      k \<le> length (Records resp) \<and>
      take 2 (stdout (fst (main boto3 args init))) = table_head \<and>
      length (stdout (fst (main boto3 args init))) = 2 + k \<and>
      (\<forall>j<k. record_row (shard_id args) (Records resp ! j)
               = Inr (stdout (fst (main boto3 args init)) ! (2 + j))) \<and>
      (if k = length (Records resp) then snd (main boto3 args init) = Inr ()
       else \<exists>e. record_row (shard_id args) (Records resp ! k) = Inl e \<and>
                snd (main boto3 args init) = Inl e))"
proof (cases "\<exists>kinesis itr C resp.
      boto3 (str ''kinesis'') (region args) = Inr kinesis \<and>
      get_shard_iterator kinesis (stream_name args) (shard_id args) (str ''TRIM_HORIZON'') = Inr itr \<and>
      ShardIterator itr = Some C \<and>
      get_records kinesis C 200 = Inr resp")
  case False
  then show ?thesis by (rule main_no_fetch [THEN disjI1])
next
  case True
  then obtain kinesis itr C resp where
    b: "boto3 (str ''kinesis'') (region args) = Inr kinesis"
    and g: "get_shard_iterator kinesis (stream_name args) (shard_id args) (str ''TRIM_HORIZON'') = Inr itr"
    and s: "ShardIterator itr = Some C"
    and f: "get_records kinesis C 200 = Inr resp"
    by blast
  from main_render [of boto3 args, OF b g s f] obtain k where "k \<le> length (Records resp)"
    and "take 2 (stdout (fst (main boto3 args init))) = table_head"
    and "length (stdout (fst (main boto3 args init))) = 2 + k"
    and "\<forall>j<k. record_row (shard_id args) (Records resp ! j)
                    = Inr (stdout (fst (main boto3 args init)) ! (2 + j))"
    and "if k = length (Records resp) then snd (main boto3 args init) = Inr ()
            else \<exists>e. record_row (shard_id args) (Records resp ! k) = Inl e \<and>
                     snd (main boto3 args init) = Inl e"
    by (elim exE conjE)
  with b g s f show ?thesis
    by (intro disjI2 exI [of _ kinesis] exI [of _ itr] exI [of _ C] exI [of _ resp] exI [of _ k]
        conjI)
qed

text \<open>The run on shard 3 is of the second kind.\<close>

theorem main_output_prefix_witness:
  "stdout (fst (main orders_boto3 (orders_args ''shardId-0003'') init)) \<noteq> [] \<and>
   (\<exists>resp k.
      get_records orders_client (str ''mixed'') 200 = Inr resp \<and>
      k \<le> length (Records resp) \<and>
      length (stdout (fst (main orders_boto3 (orders_args ''shardId-0003'') init))) = 2 + k)"
proof -
  let ?args = "orders_args ''shardId-0003''"
  have ne: "stdout (fst (main orders_boto3 ?args init)) \<noteq> []"
    by (simp add: run_shard_3)
  with main_output_prefix [of orders_boto3 ?args]
  obtain kinesis itr C resp k where
    b: "orders_boto3 (str ''kinesis'') (region ?args) = Inr kinesis"
    and g: "get_shard_iterator kinesis (stream_name ?args) (shard_id ?args) (str ''TRIM_HORIZON'') = Inr itr"
    and s: "ShardIterator itr = Some C"
    and f: "get_records kinesis C 200 = Inr resp"
    and k: "k \<le> length (Records resp)"
    and n: "length (stdout (fst (main orders_boto3 ?args init))) = 2 + k"
    by blast
  have b': "orders_boto3 (str ''kinesis'') (region ?args) = Inr orders_client"
    by (simp add: orders_defs)
  have g': "get_shard_iterator orders_client (stream_name ?args) (shard_id ?args)
      (str ''TRIM_HORIZON'') = Inr \<lparr>ShardIterator = Some (str ''mixed'')\<rparr>"
    by (simp add: orders_defs)
  from b b' have "kinesis = orders_client" by simp
  with g g' have "itr = \<lparr>ShardIterator = Some (str ''mixed'')\<rparr>" by simp
  with s have "C = str ''mixed''" by simp
  with f \<open>kinesis = orders_client\<close> have "get_records orders_client (str ''mixed'') 200 = Inr resp"
    by simp
  with ne k n show ?thesis by blast
qed

subsection \<open>The widths of the columns\<close>

text \<open>
  C7, as stated, does not hold: the widths are minimum widths. On shard 4 the payload
  has 41 characters; the header and the dashes are 122 characters long, the data row
  123, and its third column is the 41 characters of the payload.
\<close>

theorem column_width_counterexample:
  "map length (stdout (fst (main orders_boto3 (orders_args ''shardId-0004'') init))) =
     [122, 122, 123] \<and>
   drop 82 (stdout (fst (main orders_boto3 (orders_args ''shardId-0004'') init)) ! 2) =
     replicate 41 97"
  by (simp add: run_shard_4 table_head_def str_def)

text \<open>
  C7, amended. Every printed line is three columns joined by single spaces, built with
  the minimum widths 20, 60 and 40: a column is as long as the larger of its width and
  its value. The header shows \<open>Shard\<close>, \<open>Position\<close> and \<open>Message\<close> and the next line
  20, 60 and 40 dashes, so their columns are exactly 20, 60 and 40 wide; line \<open>n \<ge> 2\<close>
  shows the shard id, the sequence number and the decoded payload of record \<open>n - 2\<close>,
  in columns of exactly 20, 60 and 40 only when the values are no longer than that.
\<close>

theorem main_column_widths:
  assumes "n < length (stdout (fst (main boto3 args init)))"
  shows "\<exists>x y z.
           stdout (fst (main boto3 args init)) ! n =
             format_center 20 x @ [space] @ format_center 60 y @ [space] @ format_left 40 z \<and>
           length (format_center 20 x) = max 20 (length x) \<and>
           length (format_center 60 y) = max 60 (length y) \<and>
           length (format_left 40 z) = max 40 (length z) \<and>
           (n = 0 \<longrightarrow> x = str ''Shard'' \<and> y = str ''Position'' \<and> z = str ''Message'') \<and>
           (n = 1 \<longrightarrow> x = replicate 20 dash \<and> y = replicate 60 dash \<and> z = replicate 40 dash) \<and>
           (2 \<le> n \<longrightarrow>
              (\<exists>kinesis itr C resp.
                 boto3 (str ''kinesis'') (region args) = Inr kinesis \<and>
                 get_shard_iterator kinesis (stream_name args) (shard_id args)
                   (str ''TRIM_HORIZON'') = Inr itr \<and>
                 ShardIterator itr = Some C \<and>
                 get_records kinesis C 200 = Inr resp \<and>
                 n - 2 < length (Records resp) \<and>
                 shard_id args = Some x \<and>
                 y = SequenceNumber (Records resp ! (n - 2)) \<and>
                 decode (Data (Records resp ! (n - 2))) = Inr z))"
proof -
  let ?out = "stdout (fst (main boto3 args init))"
  have w: "length (format_center 20 x) = max 20 (length x) \<and>
           length (format_center 60 y) = max 60 (length y) \<and>
           length (format_left 40 z) = max 40 (length z)" for x y z
    by (simp add: length_format_center length_format_left)
  from assms have "?out \<noteq> []" by auto
  with main_no_fetch [of boto3 args] obtain kinesis itr C resp where
    b: "boto3 (str ''kinesis'') (region args) = Inr kinesis"
    and g: "get_shard_iterator kinesis (stream_name args) (shard_id args) (str ''TRIM_HORIZON'') = Inr itr"
    and s: "ShardIterator itr = Some C"
    and f: "get_records kinesis C 200 = Inr resp"
    by blast
  from main_render [of boto3 args, OF b g s f] obtain k where k: "k \<le> length (Records resp)"
    and h: "take 2 ?out = table_head"
    and l: "length ?out = 2 + k"
    and r: "\<forall>j<k. record_row (shard_id args) (Records resp ! j) = Inr (?out ! (2 + j))"
    by (elim exE conjE)
  have h0: "?out ! 0 = table_head ! 0"
    using nth_take [of 0 2 ?out] by (simp add: h)
  have h1: "?out ! 1 = table_head ! 1"
    using nth_take [of 1 2 ?out] by (simp add: h)
  consider "n = 0" | "n = 1" | "2 \<le> n" by linarith
  then show ?thesis
  proof cases
    case 1
    have "?out ! n = format_center 20 (str ''Shard'') @ [space] @
        format_center 60 (str ''Position'') @ [space] @ format_left 40 (str ''Message'')"
      unfolding 1 h0 table_head_eq by simp
    with 1 w [of "str ''Shard''" "str ''Position''" "str ''Message''"] show ?thesis
      by - (rule exI [of _ "str ''Shard''"], rule exI [of _ "str ''Position''"],
          rule exI [of _ "str ''Message''"], simp)
  next
    case 2
    have "?out ! n = format_center 20 (replicate 20 dash) @ [space] @
        format_center 60 (replicate 60 dash) @ [space] @ format_left 40 (replicate 40 dash)"
      unfolding 2 h1 table_head_eq by (simp add: format_center_long format_left_long)
    with 2 w [of "replicate 20 dash" "replicate 60 dash" "replicate 40 dash"] show ?thesis
      by - (rule exI [of _ "replicate 20 dash"], rule exI [of _ "replicate 60 dash"],
          rule exI [of _ "replicate 40 dash"], simp)
  next
    case 3
    with assms l have j: "n - 2 < k" and n: "2 + (n - 2) = n" by simp_all
    with r have row: "record_row (shard_id args) (Records resp ! (n - 2)) = Inr (?out ! n)"
      by (metis n)
    then obtain sid where sid: "shard_id args = Some sid"
      by (cases "shard_id args") (simp_all add: record_row_None split: if_splits)
    from row [unfolded sid, THEN record_row_Some_Inr] obtain m where
      m: "decode (Data (Records resp ! (n - 2))) = Inr m"
      and o: "?out ! n = format_center 20 sid @ [space] @
            format_center 60 (SequenceNumber (Records resp ! (n - 2))) @ [space] @
            format_left 40 m"
      by blast
    from j k have "n - 2 < length (Records resp)" by simp
    note lt = this
    from 3 have "n \<noteq> 0" "n \<noteq> 1" by simp_all
    with o b g s f sid m lt w [of sid "SequenceNumber (Records resp ! (n - 2))" m]
    show ?thesis
      by - (rule exI [of _ sid], rule exI [of _ "SequenceNumber (Records resp ! (n - 2))"],
          rule exI [of _ m], blast)
  qed
qed

text \<open>The data row of the run on shard 4.\<close>

theorem main_column_widths_witness:
  "2 < length (stdout (fst (main orders_boto3 (orders_args ''shardId-0004'') init))) \<and>
   (\<exists>x y z.
      stdout (fst (main orders_boto3 (orders_args ''shardId-0004'') init)) ! 2 =
        format_center 20 x @ [space] @ format_center 60 y @ [space] @ format_left 40 z \<and>
      length (format_center 20 x) = max 20 (length x) \<and>
      length (format_center 60 y) = max 60 (length y) \<and>
      length (format_left 40 z) = max 40 (length z) \<and>
      shard_id (orders_args ''shardId-0004'') = Some x)"
proof -
  have n: "2 < length (stdout (fst (main orders_boto3 (orders_args ''shardId-0004'') init)))"
    by (simp add: run_shard_4 table_head_def)
  from main_column_widths [OF n] n show ?thesis
    by (elim exE conjE) (simp, blast)
qed

subsection \<open>Where a failure comes from\<close>





subsection \<open>Missing flags are passed on\<close>




end
